theory Spec2Isabelle
  imports Complex_Main
begin

section \<open>The state-machine harness of scripts/helpers/node.py\<close>

text \<open>
  The module holds two classes. \<open>State\<close> is the base class of a behaviour: it keeps a
  back-reference \<open>node\<close> to the controller that runs it and a dictionary of default
  parameters. \<open>Node\<close> is the controller: it owns the active state, caches the latest
  message of each subscribed topic, and offers the states a small interface
  (\<open>update\<close>, \<open>transition\<close>, \<open>param\<close>, \<open>set_speed\<close>, the sensor properties).

  Python objects are shared by reference, and a state and its controller point at each
  other, so the model keeps an explicit store: a world holds the \<open>State\<close> objects and
  the \<open>Node\<close> objects by reference, the ROS parameter server, and a trace. The trace
  lists, in order, what leaves the module (ROS registrations, published commands, printed
  lines) and the lifecycle calls made on states, so that "called once" and "called
  before" are statements about a list.

  The specification calls the controller \<open>Controller\<close> and the exception
  \<open>DataNotReady\<close>; the code's names, \<open>Node\<close> and \<open>WaitingForData\<close>, are used here.
  \<open>mark_target\<close>, \<open>run\<close>, \<open>run_node\<close> and \<open>State.run\<close> are left out: they
  pass their arguments on to the marker helper, the reset helper and \<open>rospy.spin\<close>.
\<close>

subsection \<open>Values and messages\<close>

text \<open>
  A Python float is finite, an infinity or a NaN. Only the classification matters here:
  \<open>set_speed\<close> tests \<open>isnan\<close> and otherwise passes the number on untouched.
\<close>

datatype pyfloat = Finite real | PosInf | NegInf | NaN

fun isnan :: "pyfloat \<Rightarrow> bool" where
  "isnan NaN = True"
| "isnan (Finite r) = False"
| "isnan PosInf = False"
| "isnan NegInf = False"

datatype pyval = PyNone | PyBool bool | PyInt int | PyFloat pyfloat | PyStr string

text \<open>The geometry messages, with the fields the module reads or writes.\<close>

datatype Vector3 = Vector3 pyfloat pyfloat pyfloat

datatype Point = Point pyfloat pyfloat pyfloat

datatype Quaternion = Quaternion pyfloat pyfloat pyfloat pyfloat

datatype Twist = Twist (linear: Vector3) (angular: Vector3)

datatype Pose = Pose (position: Point) (orientation: Quaternion)

datatype PoseWithCovariance = PoseWithCovariance (pose: Pose)

datatype TwistWithCovariance = TwistWithCovariance (twist: Twist)

text \<open>
  \<open>Odometry\<close> has the fields \<open>pose\<close> and \<open>twist\<close>, each a covariance wrapper with a
  field of the same name; the outer selectors are \<open>odom_pose\<close> and \<open>odom_twist\<close> here,
  so \<open>msg.pose.pose.position\<close> reads \<open>position (pose (odom_pose msg))\<close>.
  A point cloud carries its points as raw bytes; decoding them is ros_numpy's work.
\<close>

datatype Odometry = Odometry (odom_pose: PoseWithCovariance) (odom_twist: TwistWithCovariance)

datatype PointCloud2 = PointCloud2 "nat list"

datatype message = OdometryMsg Odometry | PointCloud2Msg PointCloud2

datatype msg_type = T_Odometry | T_PointCloud2 | T_Twist | T_Marker

fun type_of :: "message \<Rightarrow> msg_type" where
  "type_of (OdometryMsg m) = T_Odometry"
| "type_of (PointCloud2Msg m) = T_PointCloud2"

subsection \<open>Exceptions\<close>

text \<open>
  \<open>WaitingForData\<close> is the module's own exception class. The others are the built-in
  ones the module can meet, and \<open>OtherError\<close> stands for any further class a state may
  raise. No subclass of \<open>WaitingForData\<close> is declared, so the class of an exception
  decides whether \<open>except WaitingForData\<close> catches it.
\<close>

datatype exn =
    WaitingForData
  | NotImplementedError string
  | AttributeError string
  | OtherError string

subsection \<open>The store\<close>

type_synonym state_ref = nat
type_synonym node_ref = nat

text \<open>
  \<open>class State\<close>: \<open>node: Optional[Node] = None\<close> and \<open>default_params: dict = {}\<close>.
  A dictionary is a list of items with distinct keys, in insertion order.
\<close>

record State =
  node :: "node_ref option"
  default_params :: "(string \<times> pyval) list"

datatype Publisher = Publisher string msg_type

text \<open>
  \<open>class Node\<close>. The two cache slots \<open>_odom\<close> and \<open>_laser_point_cloud\<close> are class
  attributes with value \<open>None\<close>; the subscription handler writes them by name with
  \<open>__setattr__\<close>. \<open>attrs\<close> is the dictionary of the attributes written that way: an
  attribute absent from it reads as the class's \<open>None\<close>.
\<close>

record Node =
  active_state :: state_ref
  attrs :: "string \<Rightarrow> message option"
  velocity_pub :: Publisher
  target_pub :: Publisher

datatype event =
    InitNode string
  | Advertised Publisher
  | Subscribed string msg_type node_ref string
  | Published Publisher Twist
  | Printed state_ref
  | Activated state_ref node_ref
  | Deactivated state_ref

record world =
  states :: "state_ref \<Rightarrow> State"
  nodes :: "node_ref \<Rightarrow> Node"
  param_server :: "string \<Rightarrow> pyval option"
  trace :: "event list"

text \<open>
  A call either returns or raises, and both leave a world behind: what a method did
  before it raised stays done.
\<close>

datatype outcome = Returned (world_of: world) | Raised exn (world_of: world)

text \<open>
  The \<open>update\<close> methods of the concrete states are not part of the module; the harness
  is verified for every such method. A behaviour gives, for each state object, what its
  \<open>update()\<close> does to the world.
\<close>

type_synonym behaviour = "state_ref \<Rightarrow> world \<Rightarrow> outcome"

subsection \<open>class State\<close>

text \<open>
  \<open>activate\<close> and \<open>deactivate\<close> are the base class's: they set and clear the
  back-reference. \<open>update\<close> is the base class's too, which raises; every state that
  runs overrides it.
\<close>

definition State_activate :: "state_ref \<Rightarrow> node_ref \<Rightarrow> world \<Rightarrow> world" where
  "State_activate self n w =
     w\<lparr>states := (states w)(self := (states w self)\<lparr>node := Some n\<rparr>),
       trace := trace w @ [Activated self n]\<rparr>"

definition State_deactivate :: "state_ref \<Rightarrow> world \<Rightarrow> world" where
  "State_deactivate self w =
     w\<lparr>states := (states w)(self := (states w self)\<lparr>node := None\<rparr>),
       trace := trace w @ [Deactivated self]\<rparr>"

definition State_update :: "state_ref \<Rightarrow> world \<Rightarrow> outcome" where
  "State_update self w = Raised (NotImplementedError ''Override me!'') w"

subsection \<open>class Node\<close>

text \<open>
  \<open>rospy.get_param(key, default)\<close> returns the value stored under the key, and the
  default when the key is unset.
\<close>

definition rospy_get_param :: "string \<Rightarrow> pyval \<Rightarrow> world \<Rightarrow> pyval" where
  "rospy_get_param key default_value w =
     (case param_server w key of None \<Rightarrow> default_value | Some v \<Rightarrow> v)"

definition Node_param :: "node_ref \<Rightarrow> string \<Rightarrow> pyval \<Rightarrow> world \<Rightarrow> pyval" where
  "Node_param self name default_value w = rospy_get_param (''~'' @ name) default_value w"

text \<open>
  \<open>State.params\<close>: the comprehension calls \<open>self.node.param\<close> once per item, so an
  inactive state (\<open>node\<close> is \<open>None\<close>) raises \<open>AttributeError\<close> at the first item and
  a state with no default parameter returns the empty dictionary either way.
\<close>

definition State_params :: "state_ref \<Rightarrow> world \<Rightarrow> exn + (string \<times> pyval) list" where
  "State_params self w =
     (case default_params (states w self) of
        [] \<Rightarrow> Inr []
      | item # items \<Rightarrow>
          (case node (states w self) of
             None \<Rightarrow> Inl (AttributeError ''param'')
           | Some n \<Rightarrow>
               Inr (map (\<lambda>(name, val). (name, Node_param n name val w)) (item # items))))"

definition Node_update :: "behaviour \<Rightarrow> node_ref \<Rightarrow> world \<Rightarrow> outcome" where
  "Node_update beh self w =
     (case beh (active_state (nodes w self)) w of
        Returned w' \<Rightarrow> Returned w'
      | Raised e w' \<Rightarrow> (if e = WaitingForData then Returned w' else Raised e w'))"

definition set_active_state :: "node_ref \<Rightarrow> state_ref \<Rightarrow> world \<Rightarrow> world" where
  "set_active_state self s w =
     w\<lparr>nodes := (nodes w)(self := (nodes w self)\<lparr>active_state := s\<rparr>)\<rparr>"

definition print_transition :: "state_ref \<Rightarrow> world \<Rightarrow> world" where
  "print_transition to_node w = w\<lparr>trace := trace w @ [Printed to_node]\<rparr>"

definition Node_transition :: "node_ref \<Rightarrow> state_ref \<Rightarrow> world \<Rightarrow> world" where
  "Node_transition self to_node w =
     (let w1 = print_transition to_node w;
          w2 = State_deactivate (active_state (nodes w1 self)) w1;
          w3 = set_active_state self to_node w2
      in State_activate (active_state (nodes w3 self)) self w3)"

definition publish :: "Publisher \<Rightarrow> Twist \<Rightarrow> world \<Rightarrow> world" where
  "publish pub msg w = w\<lparr>trace := trace w @ [Published pub msg]\<rparr>"

definition Node_set_speed :: "node_ref \<Rightarrow> pyfloat \<Rightarrow> pyfloat \<Rightarrow> world \<Rightarrow> world" where
  "Node_set_speed self = (\<lambda>forward angular w.
     (let forward = (if isnan forward then Finite 0 else forward);
          angular = (if isnan angular then Finite 0 else angular);
          twist = Twist (Vector3 forward (Finite 0) (Finite 0))
                        (Vector3 (Finite 0) (Finite 0) angular)
      in publish (velocity_pub (nodes w self)) twist w))"

text \<open>
  The sensor properties. \<open>odom\<close> and \<open>laser_point_cloud\<close> test the slot against
  \<open>None\<close>; the derived ones read a field path of what \<open>odom\<close> returns. Python
  looks the fields up at run time: on a message without them it raises
  \<open>AttributeError\<close>.
\<close>

definition Node_odom :: "node_ref \<Rightarrow> world \<Rightarrow> exn + message" where
  "Node_odom self w =
     (case attrs (nodes w self) ''_odom'' of
        None \<Rightarrow> Inl WaitingForData
      | Some m \<Rightarrow> Inr m)"

definition Node_laser_point_cloud :: "node_ref \<Rightarrow> world \<Rightarrow> exn + message" where
  "Node_laser_point_cloud self w =
     (case attrs (nodes w self) ''_laser_point_cloud'' of
        None \<Rightarrow> Inl WaitingForData
      | Some m \<Rightarrow> Inr m)"

text \<open>
  \<open>pointcloud2_to_xyz_array\<close> belongs to ros_numpy: it is a parameter, a function
  that returns an array or raises.
\<close>

definition Node_laser_points ::
  "(message \<Rightarrow> exn + 'arr) \<Rightarrow> node_ref \<Rightarrow> world \<Rightarrow> exn + 'arr" where
  "Node_laser_points pointcloud2_to_xyz_array self w =
     (case Node_laser_point_cloud self w of
        Inl e \<Rightarrow> Inl e
      | Inr m \<Rightarrow> pointcloud2_to_xyz_array m)"

fun msg_pose :: "message \<Rightarrow> exn + PoseWithCovariance" where
  "msg_pose (OdometryMsg m) = Inr (odom_pose m)"
| "msg_pose (PointCloud2Msg c) = Inl (AttributeError ''pose'')"

fun msg_twist :: "message \<Rightarrow> exn + TwistWithCovariance" where
  "msg_twist (OdometryMsg m) = Inr (odom_twist m)"
| "msg_twist (PointCloud2Msg c) = Inl (AttributeError ''twist'')"

definition Node_position :: "node_ref \<Rightarrow> world \<Rightarrow> exn + Point" where
  "Node_position self w =
     (case Node_odom self w of
        Inl e \<Rightarrow> Inl e
      | Inr m \<Rightarrow> (case msg_pose m of Inl e \<Rightarrow> Inl e | Inr p \<Rightarrow> Inr (position (pose p))))"

definition Node_orientation :: "node_ref \<Rightarrow> world \<Rightarrow> exn + Quaternion" where
  "Node_orientation self w =
     (case Node_odom self w of
        Inl e \<Rightarrow> Inl e
      | Inr m \<Rightarrow> (case msg_pose m of Inl e \<Rightarrow> Inl e | Inr p \<Rightarrow> Inr (orientation (pose p))))"

definition Node_linear_vel :: "node_ref \<Rightarrow> world \<Rightarrow> exn + Vector3" where
  "Node_linear_vel self w =
     (case Node_odom self w of
        Inl e \<Rightarrow> Inl e
      | Inr m \<Rightarrow> (case msg_twist m of Inl e \<Rightarrow> Inl e | Inr t \<Rightarrow> Inr (linear (twist t))))"

definition Node_angular_vel :: "node_ref \<Rightarrow> world \<Rightarrow> exn + Vector3" where
  "Node_angular_vel self w =
     (case Node_odom self w of
        Inl e \<Rightarrow> Inl e
      | Inr m \<Rightarrow> (case msg_twist m of Inl e \<Rightarrow> Inl e | Inr t \<Rightarrow> Inr (angular (twist t))))"

text \<open>
  \<open>_subscribe\<close> builds the closure \<open>_handler\<close> over \<open>self\<close> and \<open>attr_name\<close>
  and hands it to \<open>rospy.Subscriber\<close>. The registration is an event of the trace,
  which carries what the closure captured.
\<close>

definition Node_setattr :: "node_ref \<Rightarrow> string \<Rightarrow> message \<Rightarrow> world \<Rightarrow> world" where
  "Node_setattr self attr_name msg w =
     w\<lparr>nodes := (nodes w)(self := (nodes w self)\<lparr>attrs := (attrs (nodes w self))(attr_name \<mapsto> msg)\<rparr>)\<rparr>"

definition Node_handler :: "behaviour \<Rightarrow> node_ref \<Rightarrow> string \<Rightarrow> message \<Rightarrow> world \<Rightarrow> outcome" where
  "Node_handler beh self attr_name msg w =
     Node_update beh self (Node_setattr self attr_name msg w)"

definition Node_subscribe :: "node_ref \<Rightarrow> string \<Rightarrow> msg_type \<Rightarrow> string \<Rightarrow> world \<Rightarrow> world" where
  "Node_subscribe self topic ty attr_name w =
     w\<lparr>trace := trace w @ [Subscribed topic ty self attr_name]\<rparr>"

definition rospy_init_node :: "string \<Rightarrow> world \<Rightarrow> world" where
  "rospy_init_node name w = w\<lparr>trace := trace w @ [InitNode name]\<rparr>"

definition advertise :: "Publisher \<Rightarrow> world \<Rightarrow> world" where
  "advertise pub w = w\<lparr>trace := trace w @ [Advertised pub]\<rparr>"

definition set_velocity_pub :: "node_ref \<Rightarrow> Publisher \<Rightarrow> world \<Rightarrow> world" where
  "set_velocity_pub self pub w =
     w\<lparr>nodes := (nodes w)(self := (nodes w self)\<lparr>velocity_pub := pub\<rparr>)\<rparr>"

definition set_target_pub :: "node_ref \<Rightarrow> Publisher \<Rightarrow> world \<Rightarrow> world" where
  "set_target_pub self pub w =
     w\<lparr>nodes := (nodes w)(self := (nodes w self)\<lparr>target_pub := pub\<rparr>)\<rparr>"

definition Node_init :: "node_ref \<Rightarrow> state_ref \<Rightarrow> string \<Rightarrow> world \<Rightarrow> world" where
  "Node_init self starting_state name w =
     (let w1 = rospy_init_node name w;
          w2 = set_active_state self starting_state w1;
          w3 = State_activate (active_state (nodes w2 self)) self w2;
          w4 = set_velocity_pub self (Publisher ''/cmd_vel'' T_Twist)
                 (advertise (Publisher ''/cmd_vel'' T_Twist) w3);
          w5 = set_target_pub self (Publisher ''/target'' T_Marker)
                 (advertise (Publisher ''/target'' T_Marker) w4);
          w6 = Node_subscribe self ''/odom'' T_Odometry ''_odom'' w5
      in Node_subscribe self ''/projected_stable_scan'' T_PointCloud2 ''_laser_point_cloud'' w6)"

text \<open>
  \<open>Node(state, name)\<close> allocates the object and runs \<open>__init__\<close> on it. A new
  object has no attribute of its own, so both slots read as the class's \<open>None\<close>.
\<close>

definition Node_alloc :: "node_ref \<Rightarrow> world \<Rightarrow> world" where
  "Node_alloc self w = w\<lparr>nodes := (nodes w)(self := (nodes w self)\<lparr>attrs := (\<lambda>a. None)\<rparr>)\<rparr>"

definition Node_new :: "node_ref \<Rightarrow> state_ref \<Rightarrow> string \<Rightarrow> world \<Rightarrow> world" where
  "Node_new self starting_state name w = Node_init self starting_state name (Node_alloc self w)"

subsection \<open>The transport\<close>

text \<open>
  rospy calls the handlers registered for a topic with every message of the
  subscription's type that arrives on it, one call at a time. An exception that leaves
  a handler ends that call only: the world stays as the handler left it and the next
  message is delivered to it.
\<close>

fun subscriptions :: "event list \<Rightarrow> (string \<times> msg_type \<times> node_ref \<times> string) list" where
  "subscriptions [] = []"
| "subscriptions (Subscribed topic ty n attr_name # es) = (topic, ty, n, attr_name) # subscriptions es"
| "subscriptions (e # es) = subscriptions es"

fun run_callbacks ::
  "behaviour \<Rightarrow> message \<Rightarrow> (string \<times> msg_type \<times> node_ref \<times> string) list \<Rightarrow> world \<Rightarrow> world" where
  "run_callbacks beh msg [] w = w"
| "run_callbacks beh msg ((topic, ty, n, attr_name) # cs) w =
     run_callbacks beh msg cs (world_of (Node_handler beh n attr_name msg w))"

definition listens :: "string \<Rightarrow> message \<Rightarrow> string \<times> msg_type \<times> node_ref \<times> string \<Rightarrow> bool" where
  "listens topic msg c = (fst c = topic \<and> fst (snd c) = type_of msg)"

definition deliver :: "behaviour \<Rightarrow> string \<Rightarrow> message \<Rightarrow> world \<Rightarrow> world" where
  "deliver beh topic msg w =
     run_callbacks beh msg (filter (listens topic msg) (subscriptions (trace w))) w"

fun spin :: "behaviour \<Rightarrow> (string \<times> message) list \<Rightarrow> world \<Rightarrow> world" where
  "spin beh [] w = w"
| "spin beh ((topic, msg) # ms) w = spin beh ms (deliver beh topic msg w)"

subsection \<open>Runs\<close>

text \<open>
  The words the claims about whole runs need. A behaviour keeps the cache private when
  no \<open>update()\<close> writes an attribute of a controller or registers a handler: the
  states go through the controller's interface, which offers neither. \<open>received\<close>
  lists the messages of a type that arrived on a topic, in order of arrival. A
  reference is fresh in a world when no handler of that world belongs to it, as for an
  object about to be created. \<open>hits\<close> lists the messages that reach a given
  attribute of a given controller under given registrations.
\<close>

definition cache_private :: "behaviour \<Rightarrow> bool" where
  "cache_private beh =
     (\<forall>s w. (\<forall>n. attrs (nodes (world_of (beh s w)) n) = attrs (nodes w n)) \<and>
            subscriptions (trace (world_of (beh s w))) = subscriptions (trace w))"

definition received :: "string \<Rightarrow> msg_type \<Rightarrow> (string \<times> message) list \<Rightarrow> message list" where
  "received topic ty ms = map snd (filter (\<lambda>d. fst d = topic \<and> type_of (snd d) = ty) ms)"

definition fresh :: "node_ref \<Rightarrow> world \<Rightarrow> bool" where
  "fresh self w = (self \<notin> set (map (\<lambda>c. fst (snd (snd c))) (subscriptions (trace w))))"

definition hits ::
  "(string \<times> msg_type \<times> node_ref \<times> string) list \<Rightarrow> node_ref \<Rightarrow> string \<Rightarrow>
   (string \<times> message) list \<Rightarrow> message list" where
  "hits subs n x ms = map snd (filter (\<lambda>d. (fst d, type_of (snd d), n, x) \<in> set subs) ms)"

subsection \<open>Example states\<close>

text \<open>
  Two states written against the controller's interface, and the world of a process
  that has created no object yet. \<open>Follow_update\<close> is
  \<open>self.node.set_speed(self.node.linear_vel.x, 0)\<close>; \<open>Switch_update target\<close> is
  \<open>self.node.transition(target)\<close>.
\<close>

fun vector3_x :: "Vector3 \<Rightarrow> pyfloat" where
  "vector3_x (Vector3 x y z) = x"

definition Follow_update :: "state_ref \<Rightarrow> world \<Rightarrow> outcome" where
  "Follow_update self w =
     (case node (states w self) of
        None \<Rightarrow> Raised (AttributeError ''linear_vel'') w
      | Some n \<Rightarrow>
          (case Node_linear_vel n w of
             Inl e \<Rightarrow> Raised e w
           | Inr v \<Rightarrow> Returned (Node_set_speed n (vector3_x v) (Finite 0) w)))"

definition Switch_update :: "state_ref \<Rightarrow> state_ref \<Rightarrow> world \<Rightarrow> outcome" where
  "Switch_update target self w =
     (case node (states w self) of
        None \<Rightarrow> Raised (AttributeError ''transition'') w
      | Some n \<Rightarrow> Returned (Node_transition n target w))"

definition boot :: world where
  "boot =
     \<lparr>states = (\<lambda>s. \<lparr>node = None, default_params = []\<rparr>),
      nodes = (\<lambda>n. \<lparr>active_state = 0, attrs = (\<lambda>a. None),
                      velocity_pub = Publisher [] T_Twist, target_pub = Publisher [] T_Marker\<rparr>),
      param_server = (\<lambda>k. None),
      trace = []\<rparr>"

text \<open>
  \<open>started\<close>: a controller at reference 0, built on state 0, with no message received.
  \<open>switching\<close>: a controller at reference 0, built on state 3.
\<close>

definition started :: world where
  "started = Node_new 0 0 ''follow'' boot"

definition switching :: world where
  "switching = Node_new 0 3 ''switch'' boot"

text \<open>
  \<open>tuned\<close>: a controller built on a state that declares two default parameters,
  one of them set on the parameter server. \<open>odomA\<close> and \<open>odomB\<close> are two
  odometry messages, and \<open>byte_count\<close> is a decoder that accepts point clouds only.
\<close>

definition tuned :: world where
  "tuned =
     Node_new 0 0 ''tuned''
       (boot\<lparr>states := (states boot)
               (0 := \<lparr>node = None,
                      default_params = [(''speed'', PyFloat (Finite 1)), (''gain'', PyInt 2)]\<rparr>),
             param_server := [''~gain'' \<mapsto> PyInt 5]\<rparr>)"

definition odomA :: Odometry where
  "odomA =
     Odometry
       (PoseWithCovariance (Pose (Point (Finite 1) (Finite 2) (Finite 0))
                                 (Quaternion (Finite 0) (Finite 0) (Finite 0) (Finite 1))))
       (TwistWithCovariance (Twist (Vector3 (Finite 3) (Finite 0) (Finite 0))
                                   (Vector3 (Finite 0) (Finite 0) (Finite 4))))"

definition odomB :: Odometry where
  "odomB =
     Odometry
       (PoseWithCovariance (Pose (Point (Finite 5) (Finite 6) (Finite 0))
                                 (Quaternion (Finite 0) (Finite 0) (Finite 0) (Finite 1))))
       (TwistWithCovariance (Twist (Vector3 (Finite 7) (Finite 0) (Finite 0))
                                   (Vector3 (Finite 0) (Finite 0) (Finite 8))))"

definition byte_count :: "message \<Rightarrow> exn + nat" where
  "byte_count m =
     (case m of
        PointCloud2Msg (PointCloud2 bytes) \<Rightarrow> Inr (length bytes)
      | OdometryMsg od \<Rightarrow> Inl (AttributeError ''fields''))"

section \<open>Basic facts\<close>

subsection \<open>The example worlds\<close>

lemma started_simps:
  "active_state (nodes started self) = 0"
  "node (states started 0) = Some 0"
  "attrs (nodes started 0) a = None"
  by (simp_all add: started_def Node_new_def Node_init_def Node_alloc_def boot_def Let_def
      rospy_init_node_def set_active_state_def State_activate_def set_velocity_pub_def
      set_target_pub_def advertise_def Node_subscribe_def)

lemma switching_simps:
  "active_state (nodes switching 0) = 3"
  "node (states switching 3) = Some 0"
  by (simp_all add: switching_def Node_new_def Node_init_def Node_alloc_def boot_def Let_def
      rospy_init_node_def set_active_state_def State_activate_def set_velocity_pub_def
      set_target_pub_def advertise_def Node_subscribe_def)

lemma tuned_simps:
  "node (states tuned 0) = Some 0"
  "default_params (states tuned 0) = [(''speed'', PyFloat (Finite 1)), (''gain'', PyInt 2)]"
  "param_server tuned = [''~gain'' \<mapsto> PyInt 5]"
  by (simp_all add: tuned_def Node_new_def Node_init_def Node_alloc_def boot_def Let_def
      rospy_init_node_def set_active_state_def State_activate_def set_velocity_pub_def
      set_target_pub_def advertise_def Node_subscribe_def)

subsection \<open>What each method changes\<close>

lemma Node_transition_steps:
  "Node_transition self s2 w =
     State_activate s2 self
       (set_active_state self s2
          (State_deactivate (active_state (nodes w self)) (print_transition s2 w)))"
  by (simp add: Node_transition_def Let_def set_active_state_def print_transition_def
      State_deactivate_def)

lemma Node_transition_trace:
  "trace (Node_transition self s2 w) =
     trace w @ [Printed s2, Deactivated (active_state (nodes w self)), Activated s2 self]"
  by (simp add: Node_transition_steps State_activate_def set_active_state_def
      State_deactivate_def print_transition_def)

lemma Node_transition_nodes:
  "nodes (Node_transition self s2 w) = (nodes w)(self := (nodes w self)\<lparr>active_state := s2\<rparr>)"
  by (simp add: Node_transition_steps State_activate_def set_active_state_def
      State_deactivate_def print_transition_def)

lemma Node_transition_node:
  "node (states (Node_transition self s2 w) s) =
     (if s = s2 then Some self
      else if s = active_state (nodes w self) then None
      else node (states w s))"
  by (simp add: Node_transition_steps State_activate_def set_active_state_def
      State_deactivate_def print_transition_def)

lemma Node_transition_param_server:
  "param_server (Node_transition self s2 w) = param_server w"
  by (simp add: Node_transition_steps State_activate_def set_active_state_def
      State_deactivate_def print_transition_def)


lemma Node_update_dispatch:
  "Node_update beh self w =
     (case beh (active_state (nodes w self)) w of
        Returned v \<Rightarrow> Returned v
      | Raised e v \<Rightarrow> (if e = WaitingForData then Returned v else Raised e v))"
  by (simp add: Node_update_def)

lemma subscriptions_append:
  "subscriptions (xs @ ys) = subscriptions xs @ subscriptions ys"
  by (induction xs rule: subscriptions.induct) simp_all

lemma Node_setattr_attrs:
  "attrs (nodes (Node_setattr self a m w) n) x =
     (if n = self \<and> x = a then Some m else attrs (nodes w n) x)"
  by (simp add: Node_setattr_def)

lemma Node_setattr_trace: "trace (Node_setattr self a m w) = trace w"
  by (simp add: Node_setattr_def)

lemma world_of_Node_update:
  "world_of (Node_update beh self w) = world_of (beh (active_state (nodes w self)) w)"
  by (simp add: Node_update_def split: outcome.splits)

lemma Node_set_speed_frame:
  "nodes (Node_set_speed self f a w) = nodes w"
  "subscriptions (trace (Node_set_speed self f a w)) = subscriptions (trace w)"
  by (simp_all add: Node_set_speed_def Let_def publish_def subscriptions_append)

lemma Node_transition_subscriptions:
  "subscriptions (trace (Node_transition self s w)) = subscriptions (trace w)"
  by (simp add: Node_transition_trace subscriptions_append)

lemma Node_new_velocity_pub:
  "velocity_pub (nodes (Node_new self s name w) self) = Publisher ''/cmd_vel'' T_Twist"
  by (simp add: Node_new_def Node_init_def Node_alloc_def Let_def
      rospy_init_node_def set_active_state_def State_activate_def set_velocity_pub_def
      set_target_pub_def advertise_def Node_subscribe_def)

lemma Node_new_subscriptions:
  "subscriptions (trace (Node_new self s name w)) =
     subscriptions (trace w) @
       [(''/odom'', T_Odometry, self, ''_odom''),
        (''/projected_stable_scan'', T_PointCloud2, self, ''_laser_point_cloud'')]"
  by (simp add: Node_new_def Node_init_def Node_alloc_def Let_def
      rospy_init_node_def set_active_state_def State_activate_def set_velocity_pub_def
      set_target_pub_def advertise_def Node_subscribe_def subscriptions_append)

lemma Node_new_attrs: "attrs (nodes (Node_new self s name w) self) x = None"
  by (simp add: Node_new_def Node_init_def Node_alloc_def Let_def
      rospy_init_node_def set_active_state_def State_activate_def set_velocity_pub_def
      set_target_pub_def advertise_def Node_subscribe_def)

lemma State_params_active:
  assumes "node (states w self) = Some n"
  shows "State_params self w =
           Inr (map (\<lambda>(name, val). (name, Node_param n name val w)) (default_params (states w self)))"
  using assms by (simp add: State_params_def split: list.splits)

subsection \<open>The sensor properties on one world\<close>

lemma odom_waits_iff:
  "(Node_odom self w = Inl WaitingForData) = (attrs (nodes w self) ''_odom'' = None)"
  by (simp add: Node_odom_def split: option.splits)

lemma laser_point_cloud_waits_iff:
  "(Node_laser_point_cloud self w = Inl WaitingForData) =
     (attrs (nodes w self) ''_laser_point_cloud'' = None)"
  by (simp add: Node_laser_point_cloud_def split: option.splits)

lemma laser_points_waits_iff:
  assumes "\<forall>m. dec m \<noteq> Inl WaitingForData"
  shows "(Node_laser_points dec self w = Inl WaitingForData) =
           (attrs (nodes w self) ''_laser_point_cloud'' = None)"
  using assms
  by (simp add: Node_laser_points_def Node_laser_point_cloud_def split: option.splits)

lemma msg_pose_not_waiting: "msg_pose m \<noteq> Inl WaitingForData"
  by (cases m) simp_all

lemma msg_twist_not_waiting: "msg_twist m \<noteq> Inl WaitingForData"
  by (cases m) simp_all

lemma derived_wait_iff:
  "(Node_position self w = Inl WaitingForData) = (attrs (nodes w self) ''_odom'' = None)"
  "(Node_orientation self w = Inl WaitingForData) = (attrs (nodes w self) ''_odom'' = None)"
  "(Node_linear_vel self w = Inl WaitingForData) = (attrs (nodes w self) ''_odom'' = None)"
  "(Node_angular_vel self w = Inl WaitingForData) = (attrs (nodes w self) ''_odom'' = None)"
  using msg_pose_not_waiting msg_twist_not_waiting
  by (auto simp add: Node_position_def Node_orientation_def Node_linear_vel_def
      Node_angular_vel_def Node_odom_def split: option.splits sum.splits)

lemma odom_readings:
  assumes "attrs (nodes w self) ''_odom'' = Some (OdometryMsg od)"
  shows "Node_odom self w = Inr (OdometryMsg od)"
    "Node_position self w = Inr (position (pose (odom_pose od)))"
    "Node_orientation self w = Inr (orientation (pose (odom_pose od)))"
    "Node_linear_vel self w = Inr (linear (twist (odom_twist od)))"
    "Node_angular_vel self w = Inr (angular (twist (odom_twist od)))"
  using assms
  by (simp_all add: Node_position_def Node_orientation_def Node_linear_vel_def
      Node_angular_vel_def Node_odom_def)

lemma laser_readings:
  assumes "attrs (nodes w self) ''_laser_point_cloud'' = Some m"
  shows "Node_laser_point_cloud self w = Inr m"
    "Node_laser_points dec self w = dec m"
  using assms
  by (simp_all add: Node_laser_points_def Node_laser_point_cloud_def)

subsection \<open>Deliveries\<close>

text \<open>
  Under a behaviour that keeps the cache private, a delivery writes the message into
  the attribute of every handler registered for its topic and type and into nothing
  else, and registers nothing. Over a run, an attribute holds the last message that
  reached it.
\<close>

lemma Node_handler_attrs:
  assumes "cache_private beh"
  shows "attrs (nodes (world_of (Node_handler beh self a m w)) n) x =
           (if n = self \<and> x = a then Some m else attrs (nodes w n) x)"
  using assms
  by (simp add: Node_handler_def world_of_Node_update cache_private_def Node_setattr_attrs)

lemma Node_handler_subscriptions:
  assumes "cache_private beh"
  shows "subscriptions (trace (world_of (Node_handler beh self a m w))) = subscriptions (trace w)"
  using assms
  by (simp add: Node_handler_def world_of_Node_update cache_private_def Node_setattr_trace)

lemma run_callbacks_subscriptions:
  assumes "cache_private beh"
  shows "subscriptions (trace (run_callbacks beh m cs w)) = subscriptions (trace w)"
  using assms
  by (induction beh m cs w rule: run_callbacks.induct) (simp_all add: Node_handler_subscriptions)

lemma run_callbacks_attrs:
  assumes "cache_private beh"
  shows "attrs (nodes (run_callbacks beh m cs w) n) x =
           (if (n, x) \<in> set (map (\<lambda>c. snd (snd c)) cs) then Some m else attrs (nodes w n) x)"
  using assms
  by (induction beh m cs w rule: run_callbacks.induct) (auto simp add: Node_handler_attrs)

lemma deliver_subscriptions:
  assumes "cache_private beh"
  shows "subscriptions (trace (deliver beh topic m w)) = subscriptions (trace w)"
  using assms by (simp add: deliver_def run_callbacks_subscriptions)

lemma deliver_attrs:
  assumes "cache_private beh"
  shows "attrs (nodes (deliver beh topic m w) n) x =
           (if (topic, type_of m, n, x) \<in> set (subscriptions (trace w)) then Some m
            else attrs (nodes w n) x)"
proof -
  have "((n, x) \<in> set (map (\<lambda>c. snd (snd c)) (filter (listens topic m) cs))) =
        ((topic, type_of m, n, x) \<in> set cs)" for cs
    by (force simp add: listens_def)
  then show ?thesis
    using assms by (simp add: deliver_def run_callbacks_attrs)
qed

lemma spin_subscriptions:
  assumes "cache_private beh"
  shows "subscriptions (trace (spin beh ms w)) = subscriptions (trace w)"
  using assms
  by (induction beh ms w rule: spin.induct) (simp_all add: deliver_subscriptions)

lemma spin_attrs:
  assumes "cache_private beh"
  shows "attrs (nodes (spin beh ms w) n) x =
           (if hits (subscriptions (trace w)) n x ms = [] then attrs (nodes w n) x
            else Some (last (hits (subscriptions (trace w)) n x ms)))"
  using assms
proof (induction beh ms w rule: spin.induct)
  case (1 beh w)
  then show ?case by (simp add: hits_def)
next
  case (2 beh topic msg ms w)
  then show ?case
    by (simp add: deliver_subscriptions deliver_attrs hits_def)
qed

lemma hits_odom:
  assumes "fresh self w"
  shows "hits (subscriptions (trace (Node_new self s name w))) self ''_odom'' ms =
           received ''/odom'' T_Odometry ms"
proof -
  have "(t, ty, self, x) \<notin> set (subscriptions (trace w))" for t ty x
    using assms by (force simp add: fresh_def)
  then show ?thesis
    by (auto simp add: hits_def received_def Node_new_subscriptions intro!: arg_cong [where f = "map snd"] filter_cong)
qed

lemma hits_laser:
  assumes "fresh self w"
  shows "hits (subscriptions (trace (Node_new self s name w))) self ''_laser_point_cloud'' ms =
           received ''/projected_stable_scan'' T_PointCloud2 ms"
proof -
  have "(t, ty, self, x) \<notin> set (subscriptions (trace w))" for t ty x
    using assms by (force simp add: fresh_def)
  then show ?thesis
    by (auto simp add: hits_def received_def Node_new_subscriptions intro!: arg_cong [where f = "map snd"] filter_cong)
qed

lemma received_type:
  assumes "received topic ty ms \<noteq> []"
  shows "type_of (last (received topic ty ms)) = ty"
proof -
  have "last (received topic ty ms) \<in> set (received topic ty ms)"
    using assms by simp
  then show ?thesis
    by (auto simp add: received_def)
qed

lemma run_slots:
  assumes "cache_private beh" and "fresh self w0"
  shows "attrs (nodes (spin beh ms (Node_new self s0 name w0)) self) ''_odom'' =
           (if received ''/odom'' T_Odometry ms = [] then None
            else Some (last (received ''/odom'' T_Odometry ms)))"
    "attrs (nodes (spin beh ms (Node_new self s0 name w0)) self) ''_laser_point_cloud'' =
           (if received ''/projected_stable_scan'' T_PointCloud2 ms = [] then None
            else Some (last (received ''/projected_stable_scan'' T_PointCloud2 ms)))"
  using assms
  by (simp_all add: spin_attrs hits_odom hits_laser Node_new_attrs)

subsection \<open>The example states\<close>

lemma cache_private_Follow_update: "cache_private Follow_update"
  by (simp add: cache_private_def Follow_update_def Node_set_speed_frame
      split: option.splits sum.splits)

lemma cache_private_Switch_update: "cache_private (Switch_update target)"
  by (simp add: cache_private_def Switch_update_def Node_transition_nodes
      Node_transition_subscriptions split: option.splits)

lemma fresh_boot: "fresh self boot"
  by (simp add: fresh_def boot_def)

lemma byte_count_not_waiting: "\<forall>m. byte_count m \<noteq> Inl WaitingForData"
  by (simp add: byte_count_def split: message.splits PointCloud2.splits)

lemma two_dispatches_trace:
  "trace (spin Follow_update
       [(''/odom'', OdometryMsg odomA), (''/odom'', OdometryMsg odomB)] started) =
   trace started @
     [Published (Publisher ''/cmd_vel'' T_Twist)
        (Twist (Vector3 (Finite 3) (Finite 0) (Finite 0)) (Vector3 (Finite 0) (Finite 0) (Finite 0))),
      Published (Publisher ''/cmd_vel'' T_Twist)
        (Twist (Vector3 (Finite 7) (Finite 0) (Finite 0)) (Vector3 (Finite 0) (Finite 0) (Finite 0)))]"
  by (simp add: started_def Node_new_def Node_init_def Node_alloc_def boot_def Let_def
      rospy_init_node_def set_active_state_def State_activate_def set_velocity_pub_def
      set_target_pub_def advertise_def Node_subscribe_def deliver_def listens_def
      Node_handler_def Node_setattr_def Node_update_def Follow_update_def Node_linear_vel_def
      Node_odom_def Node_set_speed_def publish_def odomA_def odomB_def)

section \<open>Dispatch\<close>

text \<open>
  C1. When the active state's \<open>update()\<close> raises \<open>WaitingForData\<close>, \<open>Node.update()\<close>
  returns normally: the exception does not pass the dispatch. The world it returns is
  the world in which the exception was raised, so the handling adds nothing: no event
  (an error report would be one) and no change of the active-state slot, which holds
  what it held when the exception was raised.
\<close>

theorem Node_update_swallows_WaitingForData:
  assumes "beh (active_state (nodes w self)) w = Raised WaitingForData w'"
  shows "Node_update beh self w = Returned w' \<and>
         trace (world_of (Node_update beh self w)) = trace w' \<and>
         active_state (nodes (world_of (Node_update beh self w)) self) = active_state (nodes w' self)"
  using assms by (simp add: Node_update_def)


theorem Node_update_swallows_WaitingForData_witness:
  "Follow_update (active_state (nodes started 0)) started = Raised WaitingForData started \<and>
   Node_update Follow_update 0 started = Returned started"
proof -
  have h: "Follow_update (active_state (nodes started 0)) started = Raised WaitingForData started"
    by (simp add: started_simps Follow_update_def Node_linear_vel_def Node_odom_def)
  from Node_update_swallows_WaitingForData [where beh = Follow_update and w = started and self = 0 and w' = started] h
  show ?thesis by simp
qed

text \<open>
  C2. When the active state's \<open>update()\<close> raises an exception of any other class,
  \<open>Node.update()\<close> raises the same exception from the same world. The dispatch returns
  normally from a raising update exactly when the class is \<open>WaitingForData\<close>: no other
  class is treated specially.
\<close>

theorem Node_update_propagates_other:
  assumes "beh (active_state (nodes w self)) w = Raised e w'"
  shows "(e \<noteq> WaitingForData \<longrightarrow> Node_update beh self w = Raised e w') \<and>
         (Node_update beh self w = Returned w' \<longleftrightarrow> e = WaitingForData)"
  using assms by (simp add: Node_update_def)

theorem Node_update_propagates_other_witness:
  "State_update (active_state (nodes started 0)) started =
     Raised (NotImplementedError ''Override me!'') started \<and>
   NotImplementedError ''Override me!'' \<noteq> WaitingForData \<and>
   Node_update State_update 0 started = Raised (NotImplementedError ''Override me!'') started"
proof -
  have h: "State_update (active_state (nodes started 0)) started =
     Raised (NotImplementedError ''Override me!'') started"
    by (simp add: State_update_def)
  from Node_update_propagates_other [where beh = State_update and w = started and self = 0
      and e = "NotImplementedError ''Override me!''" and w' = started] h
  show ?thesis by simp
qed

section \<open>Transition\<close>

text \<open>
  C3. \<open>transition(S2)\<close> on a controller whose active state is \<open>S1\<close> prints its
  line, calls \<open>S1.deactivate()\<close>, stores \<open>S2\<close> in the active-state slot and calls
  \<open>S2.activate(controller)\<close>, in this order and each once: the trace grows by exactly
  these three events. Afterwards the slot holds \<open>S2\<close>, \<open>S2\<close> points back at the
  controller, and the next dispatch runs the \<open>update()\<close> of \<open>S2\<close>. When the
  transition is what the \<open>update()\<close> of \<open>S1\<close> did, the dispatch returns with
  \<open>S2\<close> active.
\<close>

theorem Node_transition_order:
  "Node_transition self s2 w =
     State_activate s2 self
       (set_active_state self s2
          (State_deactivate (active_state (nodes w self)) (print_transition s2 w))) \<and>
   trace (Node_transition self s2 w) =
     trace w @ [Printed s2, Deactivated (active_state (nodes w self)), Activated s2 self] \<and>
   active_state (nodes (Node_transition self s2 w) self) = s2 \<and>
   node (states (Node_transition self s2 w) s2) = Some self \<and>
   Node_update beh self (Node_transition self s2 w) =
     (case beh s2 (Node_transition self s2 w) of
        Returned v \<Rightarrow> Returned v
      | Raised e v \<Rightarrow> (if e = WaitingForData then Returned v else Raised e v)) \<and>
   (beh (active_state (nodes w self)) w = Returned (Node_transition self s2 w) \<longrightarrow>
      Node_update beh self w = Returned (Node_transition self s2 w) \<and>
      active_state (nodes (world_of (Node_update beh self w)) self) = s2)"
proof -
  have slot: "active_state (nodes (Node_transition self s2 w) self) = s2"
    by (simp add: Node_transition_nodes)
  have disp: "Node_update beh self (Node_transition self s2 w) =
     (case beh s2 (Node_transition self s2 w) of
        Returned v \<Rightarrow> Returned v
      | Raised e v \<Rightarrow> (if e = WaitingForData then Returned v else Raised e v))"
    by (simp add: Node_update_dispatch slot)
  have inner: "beh (active_state (nodes w self)) w = Returned (Node_transition self s2 w) \<longrightarrow>
      Node_update beh self w = Returned (Node_transition self s2 w) \<and>
      active_state (nodes (world_of (Node_update beh self w)) self) = s2"
    by (simp add: Node_update_dispatch slot)
  show ?thesis
    using Node_transition_steps [of self s2 w] Node_transition_trace [of self s2 w]
      Node_transition_node [of self s2 w s2] slot disp inner
    by simp
qed

theorem Node_transition_order_witness:
  "Switch_update 2 (active_state (nodes switching 0)) switching =
     Returned (Node_transition 0 2 switching) \<and>
   Node_update (Switch_update 2) 0 switching = Returned (Node_transition 0 2 switching) \<and>
   active_state (nodes (world_of (Node_update (Switch_update 2) 0 switching)) 0) = 2 \<and>
   trace (Node_transition 0 2 switching) =
     trace switching @ [Printed 2, Deactivated 3, Activated 2 0]"
proof -
  have h: "Switch_update 2 (active_state (nodes switching 0)) switching =
     Returned (Node_transition 0 2 switching)"
    by (simp add: switching_simps Switch_update_def)
  note t = Node_transition_order [where beh = "Switch_update 2" and self = 0 and ?s2.0 = 2
      and w = switching]
  from t h have a: "Node_update (Switch_update 2) 0 switching = Returned (Node_transition 0 2 switching)"
    "active_state (nodes (world_of (Node_update (Switch_update 2) 0 switching)) 0) = 2"
    by blast+
  from t have b: "trace (Node_transition 0 2 switching) =
     trace switching @ [Printed 2, Deactivated (active_state (nodes switching 0)), Activated 2 0]"
    by blast
  show ?thesis using h a b by (simp add: switching_simps)
qed

text \<open>
  C9. \<open>transition\<close> changes one field of one controller, the active-state slot. The
  attributes of every controller, both cache slots among them, and the parameter server
  are as before, so every sensor property reads after the transition what it read
  before it: the state just activated sees the messages delivered earlier.
\<close>

theorem Node_transition_keeps_cache:
  "nodes (Node_transition self s w) = (nodes w)(self := (nodes w self)\<lparr>active_state := s\<rparr>) \<and>
   attrs (nodes (Node_transition self s w) n) = attrs (nodes w n) \<and>
   param_server (Node_transition self s w) = param_server w \<and>
   Node_odom self (Node_transition self s w) = Node_odom self w \<and>
   Node_laser_point_cloud self (Node_transition self s w) = Node_laser_point_cloud self w \<and>
   Node_laser_points dec self (Node_transition self s w) = Node_laser_points dec self w \<and>
   Node_position self (Node_transition self s w) = Node_position self w \<and>
   Node_orientation self (Node_transition self s w) = Node_orientation self w \<and>
   Node_linear_vel self (Node_transition self s w) = Node_linear_vel self w \<and>
   Node_angular_vel self (Node_transition self s w) = Node_angular_vel self w"
  by (simp add: Node_transition_nodes Node_transition_param_server Node_odom_def
      Node_laser_point_cloud_def Node_laser_points_def Node_position_def Node_orientation_def
      Node_linear_vel_def Node_angular_vel_def)

text \<open>
  C10. \<open>transition(S)\<close> with \<open>S\<close> already active runs the same three steps on
  the one object; nothing compares \<open>S\<close> with the active state. \<open>S.deactivate()\<close>
  clears the back-reference of \<open>S\<close>, then \<open>S.activate(controller)\<close> sets it again:
  afterwards \<open>S\<close> is the active state and points back at the controller.
\<close>

theorem Node_transition_to_active_state:
  assumes "active_state (nodes w self) = s"
  shows "Node_transition self s w =
           State_activate s self
             (set_active_state self s (State_deactivate s (print_transition s w))) \<and>
         node (states (State_deactivate s (print_transition s w)) s) = None \<and>
         trace (Node_transition self s w) = trace w @ [Printed s, Deactivated s, Activated s self] \<and>
         active_state (nodes (Node_transition self s w) self) = s \<and>
         node (states (Node_transition self s w) s) = Some self"
proof -
  have cleared: "node (states (State_deactivate s (print_transition s w)) s) = None"
    by (simp add: State_deactivate_def)
  have slot: "active_state (nodes (Node_transition self s w) self) = s"
    by (simp add: Node_transition_nodes)
  show ?thesis
    using assms Node_transition_steps [of self s w] Node_transition_trace [of self s w]
      Node_transition_node [of self s w s] cleared slot
    by simp
qed

theorem Node_transition_to_active_state_witness:
  "active_state (nodes started 0) = 0 \<and>
   node (states (State_deactivate 0 (print_transition 0 started)) 0) = None \<and>
   trace (Node_transition 0 0 started) = trace started @ [Printed 0, Deactivated 0, Activated 0 0] \<and>
   active_state (nodes (Node_transition 0 0 started) 0) = 0 \<and>
   node (states (Node_transition 0 0 started) 0) = Some 0"
proof -
  have h: "active_state (nodes started 0) = 0"
    by (simp add: started_simps)
  from Node_transition_to_active_state [where w = started and self = 0 and s = 0] h
  show ?thesis by blast
qed

section \<open>Actuation\<close>

text \<open>
  C5, as stated, fails on an infinity: \<open>set_speed\<close> tests \<open>isnan\<close> only, so
  \<open>set_speed(inf, 2.0)\<close> publishes the forward component \<open>inf\<close>, not zero.
\<close>

theorem Node_set_speed_infinite_counterexample:
  "trace (Node_set_speed 0 PosInf (Finite 2) started) =
     trace started @
       [Published (Publisher ''/cmd_vel'' T_Twist)
          (Twist (Vector3 PosInf (Finite 0) (Finite 0)) (Vector3 (Finite 0) (Finite 0) (Finite 2)))] \<and>
   trace (Node_set_speed 0 PosInf (Finite 2) started) \<noteq>
     trace started @
       [Published (Publisher ''/cmd_vel'' T_Twist)
          (Twist (Vector3 (Finite 0) (Finite 0) (Finite 0)) (Vector3 (Finite 0) (Finite 0) (Finite 2)))]"
  by (simp add: Node_set_speed_def Let_def publish_def started_def Node_new_velocity_pub)

text \<open>
  C5 (amended). For every pair of floats, \<open>set_speed\<close> replaces a NaN by zero and
  leaves every other input as it is, then publishes one command on the controller's
  velocity publisher: the forward value is the x of the linear part, the angular value
  the z of the angular part, and the other four components are zero. Nothing else
  changes, and there is no failing branch. \<open>set_speed(NaN, 2.0)\<close> publishes forward 0
  and angular 2.0; \<open>set_speed(1.0, NaN)\<close> publishes forward 1.0 and angular 0.
\<close>

theorem Node_set_speed_publishes:
  "Node_set_speed self forward0 angular0 w =
     publish (velocity_pub (nodes w self))
       (Twist (Vector3 (if forward0 = NaN then Finite 0 else forward0) (Finite 0) (Finite 0))
              (Vector3 (Finite 0) (Finite 0) (if angular0 = NaN then Finite 0 else angular0))) w \<and>
   trace (Node_set_speed self forward0 angular0 w) =
     trace w @
       [Published (velocity_pub (nodes w self))
          (Twist (Vector3 (if forward0 = NaN then Finite 0 else forward0) (Finite 0) (Finite 0))
                 (Vector3 (Finite 0) (Finite 0) (if angular0 = NaN then Finite 0 else angular0)))] \<and>
   trace (Node_set_speed self NaN (Finite 2) w) =
     trace w @
       [Published (velocity_pub (nodes w self))
          (Twist (Vector3 (Finite 0) (Finite 0) (Finite 0)) (Vector3 (Finite 0) (Finite 0) (Finite 2)))] \<and>
   trace (Node_set_speed self (Finite 1) NaN w) =
     trace w @
       [Published (velocity_pub (nodes w self))
          (Twist (Vector3 (Finite 1) (Finite 0) (Finite 0)) (Vector3 (Finite 0) (Finite 0) (Finite 0)))] \<and>
   states (Node_set_speed self forward0 angular0 w) = states w \<and>
   nodes (Node_set_speed self forward0 angular0 w) = nodes w \<and>
   param_server (Node_set_speed self forward0 angular0 w) = param_server w"
proof -
  have nan: "isnan x = (x = NaN)" for x
    by (cases x) simp_all
  show ?thesis
    by (simp add: Node_set_speed_def Let_def publish_def nan)
qed

section \<open>Parameters\<close>

text \<open>
  C8. For a state bound to a controller, \<open>params\<close> returns a dictionary with the keys
  of \<open>default_params\<close>, in the same order, each with the value of
  \<open>node.param(name, default)\<close>. That lookup reads the parameter server under the
  private name \<open>~name\<close> and falls back to the declared default when the key is unset;
  it has no failing branch.
\<close>

theorem State_params_resolved:
  assumes "node (states w self) = Some n"
  shows "\<exists>ps. State_params self w = Inr ps \<and>
           map fst ps = map fst (default_params (states w self)) \<and>
           ps = map (\<lambda>(name, val). (name, Node_param n name val w)) (default_params (states w self)) \<and>
           (\<forall>name val. Node_param n name val w =
              (case param_server w (''~'' @ name) of None \<Rightarrow> val | Some v \<Rightarrow> v))"
proof -
  have keys: "map fst (map (\<lambda>(name, val). (name, Node_param n name val w)) xs) = map fst xs" for xs
    by (induction xs) auto
  show ?thesis
    using State_params_active [OF assms] keys
    by (simp add: Node_param_def rospy_get_param_def)
qed

theorem State_params_resolved_witness:
  "node (states tuned 0) = Some 0 \<and>
   State_params 0 tuned = Inr [(''speed'', PyFloat (Finite 1)), (''gain'', PyInt 5)]"
proof -
  have h: "node (states tuned 0) = Some 0"
    by (simp add: tuned_simps)
  from State_params_resolved [OF h] obtain ps where
    ps: "State_params 0 tuned = Inr ps"
      "ps = map (\<lambda>(name, val). (name, Node_param 0 name val tuned)) (default_params (states tuned 0))"
    by blast
  have "ps = [(''speed'', PyFloat (Finite 1)), (''gain'', PyInt 5)]"
    unfolding ps(2) by (simp add: tuned_simps Node_param_def rospy_get_param_def)
  with ps(1) h show ?thesis by simp
qed

section \<open>Construction\<close>

text \<open>
  C6. \<open>Node(S0, name)\<close> leaves \<open>S0\<close> in the active-state slot, bound to the new
  controller. The trace grows by the node's initialisation, one activation of
  \<open>S0\<close>, the two publishers and then the two subscriptions: \<open>S0.activate\<close> is
  called once, and before either handler is registered. In the world in which the first
  handler is registered the active state is already \<open>S0\<close> and nothing has been
  registered by the construction. Afterwards both cache slots are \<open>None\<close>, so both
  sensor properties raise \<open>WaitingForData\<close>.
\<close>

theorem Node_new_activates_before_subscribing:
  "active_state (nodes (Node_new self s0 name w) self) = s0 \<and>
   node (states (Node_new self s0 name w) s0) = Some self \<and>
   trace (Node_new self s0 name w) =
     trace w @
       [InitNode name, Activated s0 self,
        Advertised (Publisher ''/cmd_vel'' T_Twist), Advertised (Publisher ''/target'' T_Marker),
        Subscribed ''/odom'' T_Odometry self ''_odom'',
        Subscribed ''/projected_stable_scan'' T_PointCloud2 self ''_laser_point_cloud''] \<and>
   attrs (nodes (Node_new self s0 name w) self) ''_odom'' = None \<and>
   attrs (nodes (Node_new self s0 name w) self) ''_laser_point_cloud'' = None \<and>
   Node_odom self (Node_new self s0 name w) = Inl WaitingForData \<and>
   Node_laser_point_cloud self (Node_new self s0 name w) = Inl WaitingForData \<and>
   (\<exists>w_mid.
      Node_new self s0 name w =
        Node_subscribe self ''/projected_stable_scan'' T_PointCloud2 ''_laser_point_cloud''
          (Node_subscribe self ''/odom'' T_Odometry ''_odom'' w_mid) \<and>
      active_state (nodes w_mid self) = s0 \<and>
      node (states w_mid s0) = Some self \<and>
      subscriptions (trace w_mid) = subscriptions (trace w))"
proof -
  define w_mid where
    "w_mid =
       set_target_pub self (Publisher ''/target'' T_Marker)
         (advertise (Publisher ''/target'' T_Marker)
            (set_velocity_pub self (Publisher ''/cmd_vel'' T_Twist)
               (advertise (Publisher ''/cmd_vel'' T_Twist)
                  (State_activate s0 self
                     (set_active_state self s0 (rospy_init_node name (Node_alloc self w)))))))"
  have split: "Node_new self s0 name w =
        Node_subscribe self ''/projected_stable_scan'' T_PointCloud2 ''_laser_point_cloud''
          (Node_subscribe self ''/odom'' T_Odometry ''_odom'' w_mid)"
    by (simp add: w_mid_def Node_new_def Node_init_def Let_def set_active_state_def)
  have mid: "active_state (nodes w_mid self) = s0" "node (states w_mid s0) = Some self"
    "subscriptions (trace w_mid) = subscriptions (trace w)"
    by (simp_all add: w_mid_def Node_alloc_def rospy_init_node_def set_active_state_def
        State_activate_def set_velocity_pub_def set_target_pub_def advertise_def
        subscriptions_append)
  have rest: "active_state (nodes (Node_new self s0 name w) self) = s0"
    "node (states (Node_new self s0 name w) s0) = Some self"
    "trace (Node_new self s0 name w) =
     trace w @
       [InitNode name, Activated s0 self,
        Advertised (Publisher ''/cmd_vel'' T_Twist), Advertised (Publisher ''/target'' T_Marker),
        Subscribed ''/odom'' T_Odometry self ''_odom'',
        Subscribed ''/projected_stable_scan'' T_PointCloud2 self ''_laser_point_cloud'']"
    by (simp_all add: Node_new_def Node_init_def Node_alloc_def Let_def
      rospy_init_node_def set_active_state_def State_activate_def set_velocity_pub_def
      set_target_pub_def advertise_def Node_subscribe_def)
  have unset: "Node_odom self (Node_new self s0 name w) = Inl WaitingForData"
    "Node_laser_point_cloud self (Node_new self s0 name w) = Inl WaitingForData"
    by (simp_all add: Node_odom_def Node_laser_point_cloud_def Node_new_attrs)
  have ex: "\<exists>w_mid.
      Node_new self s0 name w =
        Node_subscribe self ''/projected_stable_scan'' T_PointCloud2 ''_laser_point_cloud''
          (Node_subscribe self ''/odom'' T_Odometry ''_odom'' w_mid) \<and>
      active_state (nodes w_mid self) = s0 \<and>
      node (states w_mid s0) = Some self \<and>
      subscriptions (trace w_mid) = subscriptions (trace w)"
    by (intro exI [of _ w_mid] conjI split mid)
  show ?thesis
    by (intro conjI rest unset Node_new_attrs ex)
qed

section \<open>The sensor cache\<close>

text \<open>
  C7. A new controller has \<open>None\<close> in both slots. Over any run of deliveries to it, a
  slot is \<open>None\<close> as long as no message of its channel has arrived and holds the
  latest one afterwards. The handler writes the slot whatever it held and then
  dispatches. Once a slot holds a message, no handler call, run, transition or
  \<open>set_speed\<close> makes it \<open>None\<close> again. In the sequence set A, dispatch, set B,
  dispatch, the world handed to the first dispatch reads A and the world handed to the
  second reads B, whatever the states did in between.
\<close>

theorem cache_slot_overwritten_never_cleared:
  assumes "cache_private beh" and "fresh self w0"
    and "W = spin beh ms (Node_new self s0 name w0)"
  shows
    "attrs (nodes (Node_new self s0 name w0) self) ''_odom'' = None \<and>
     attrs (nodes (Node_new self s0 name w0) self) ''_laser_point_cloud'' = None \<and>
     attrs (nodes W self) ''_odom'' =
       (if received ''/odom'' T_Odometry ms = [] then None
        else Some (last (received ''/odom'' T_Odometry ms))) \<and>
     attrs (nodes W self) ''_laser_point_cloud'' =
       (if received ''/projected_stable_scan'' T_PointCloud2 ms = [] then None
        else Some (last (received ''/projected_stable_scan'' T_PointCloud2 ms))) \<and>
     Node_handler any self a m w = Node_update any self (Node_setattr self a m w) \<and>
     attrs (nodes (Node_setattr self a m w) self) a = Some m \<and>
     (attrs (nodes w n) x \<noteq> None \<longrightarrow>
        attrs (nodes (world_of (Node_handler beh self a m w)) n) x \<noteq> None \<and>
        attrs (nodes (spin beh ms w) n) x \<noteq> None \<and>
        attrs (nodes (Node_transition self s w) n) x \<noteq> None \<and>
        attrs (nodes (Node_set_speed self forward0 angular0 w) n) x \<noteq> None) \<and>
     Node_odom self (Node_setattr self ''_odom'' msgA w) = Inr msgA \<and>
     Node_odom self
       (Node_setattr self ''_odom'' msgB (world_of (Node_handler any self ''_odom'' msgA w))) =
       Inr msgB"
proof -
  note slots = run_slots [OF assms(1,2), of ms s0 name, folded assms(3)]
  have kept: "attrs (nodes w n) x \<noteq> None \<longrightarrow>
        attrs (nodes (world_of (Node_handler beh self a m w)) n) x \<noteq> None \<and>
        attrs (nodes (spin beh ms w) n) x \<noteq> None \<and>
        attrs (nodes (Node_transition self s w) n) x \<noteq> None \<and>
        attrs (nodes (Node_set_speed self forward0 angular0 w) n) x \<noteq> None"
    using assms(1)
    by (simp add: Node_handler_attrs spin_attrs Node_transition_nodes Node_set_speed_frame)
  have seq: "Node_odom self (Node_setattr self ''_odom'' msgA w) = Inr msgA"
    "Node_odom self
       (Node_setattr self ''_odom'' msgB (world_of (Node_handler any self ''_odom'' msgA w))) =
       Inr msgB"
    by (simp_all add: Node_odom_def Node_setattr_attrs)
  show ?thesis
    by (intro conjI slots kept seq Node_new_attrs Node_handler_def)
       (simp add: Node_setattr_attrs)
qed

theorem cache_slot_overwritten_never_cleared_witness:
  "cache_private Follow_update \<and> fresh 0 boot \<and>
   attrs (nodes started 0) ''_odom'' = None \<and>
   attrs (nodes (spin Follow_update [(''/odom'', OdometryMsg odomA)] started) 0) ''_odom'' =
     Some (OdometryMsg odomA) \<and>
   attrs (nodes (spin Follow_update
       [(''/odom'', OdometryMsg odomA), (''/odom'', OdometryMsg odomB)] started) 0) ''_odom'' =
     Some (OdometryMsg odomB) \<and>
   trace (spin Follow_update
       [(''/odom'', OdometryMsg odomA), (''/odom'', OdometryMsg odomB)] started) =
     trace started @
       [Published (Publisher ''/cmd_vel'' T_Twist)
          (Twist (Vector3 (Finite 3) (Finite 0) (Finite 0)) (Vector3 (Finite 0) (Finite 0) (Finite 0))),
        Published (Publisher ''/cmd_vel'' T_Twist)
          (Twist (Vector3 (Finite 7) (Finite 0) (Finite 0)) (Vector3 (Finite 0) (Finite 0) (Finite 0)))]"
proof -
  have run: "spin Follow_update ms started = spin Follow_update ms (Node_new 0 0 ''follow'' boot)" for ms
    by (simp add: started_def)
  note t = cache_slot_overwritten_never_cleared [OF cache_private_Follow_update fresh_boot run]
  have one: "attrs (nodes (spin Follow_update [(''/odom'', OdometryMsg odomA)] started) 0) ''_odom'' =
     Some (OdometryMsg odomA)"
    using t [of "[(''/odom'', OdometryMsg odomA)]"] by (simp add: received_def)
  have two: "attrs (nodes (spin Follow_update
       [(''/odom'', OdometryMsg odomA), (''/odom'', OdometryMsg odomB)] started) 0) ''_odom'' =
     Some (OdometryMsg odomB)"
    using t [of "[(''/odom'', OdometryMsg odomA), (''/odom'', OdometryMsg odomB)]"]
    by (simp add: received_def)
  show ?thesis
    using cache_private_Follow_update fresh_boot one two two_dispatches_trace
    by (simp add: started_simps)
qed

text \<open>
  C4. On every world, each of the seven sensor properties raises \<open>WaitingForData\<close>
  exactly when the slot of its channel is \<open>None\<close>. Over any run of deliveries to a new
  controller, the slot is \<open>None\<close> exactly when no message of the channel has arrived;
  once one has, \<open>odom\<close> and \<open>laser_point_cloud\<close> return the latest message, the four
  odometry readings return its fields, and \<open>laser_points\<close> returns what the decoder
  makes of it. No property returns a value while its slot is unset.
\<close>

theorem sensor_properties_wait_iff_unset:
  assumes "cache_private beh" and "fresh self w0"
    and "\<forall>m. dec m \<noteq> Inl WaitingForData"
    and "W = spin beh ms (Node_new self s0 name w0)"
  shows
    "(Node_odom self w = Inl WaitingForData) = (attrs (nodes w self) ''_odom'' = None) \<and>
     (Node_position self w = Inl WaitingForData) = (attrs (nodes w self) ''_odom'' = None) \<and>
     (Node_orientation self w = Inl WaitingForData) = (attrs (nodes w self) ''_odom'' = None) \<and>
     (Node_linear_vel self w = Inl WaitingForData) = (attrs (nodes w self) ''_odom'' = None) \<and>
     (Node_angular_vel self w = Inl WaitingForData) = (attrs (nodes w self) ''_odom'' = None) \<and>
     (Node_laser_point_cloud self w = Inl WaitingForData) =
        (attrs (nodes w self) ''_laser_point_cloud'' = None) \<and>
     (Node_laser_points dec self w = Inl WaitingForData) =
        (attrs (nodes w self) ''_laser_point_cloud'' = None) \<and>
     (attrs (nodes W self) ''_odom'' = None) = (received ''/odom'' T_Odometry ms = []) \<and>
     (attrs (nodes W self) ''_laser_point_cloud'' = None) =
        (received ''/projected_stable_scan'' T_PointCloud2 ms = []) \<and>
     (received ''/odom'' T_Odometry ms \<noteq> [] \<longrightarrow>
        (\<exists>od. last (received ''/odom'' T_Odometry ms) = OdometryMsg od \<and>
              Node_odom self W = Inr (OdometryMsg od) \<and>
              Node_position self W = Inr (position (pose (odom_pose od))) \<and>
              Node_orientation self W = Inr (orientation (pose (odom_pose od))) \<and>
              Node_linear_vel self W = Inr (linear (twist (odom_twist od))) \<and>
              Node_angular_vel self W = Inr (angular (twist (odom_twist od))))) \<and>
     (received ''/projected_stable_scan'' T_PointCloud2 ms \<noteq> [] \<longrightarrow>
        (\<exists>c. last (received ''/projected_stable_scan'' T_PointCloud2 ms) = PointCloud2Msg c \<and>
             Node_laser_point_cloud self W = Inr (PointCloud2Msg c) \<and>
             Node_laser_points dec self W = dec (PointCloud2Msg c)))"
proof -
  note slots = run_slots [OF assms(1,2), of ms s0 name, folded assms(4)]
  have unset: "(attrs (nodes W self) ''_odom'' = None) = (received ''/odom'' T_Odometry ms = [])"
    "(attrs (nodes W self) ''_laser_point_cloud'' = None) =
        (received ''/projected_stable_scan'' T_PointCloud2 ms = [])"
    by (simp_all add: slots)
  have odo: "received ''/odom'' T_Odometry ms \<noteq> [] \<longrightarrow>
        (\<exists>od. last (received ''/odom'' T_Odometry ms) = OdometryMsg od \<and>
              Node_odom self W = Inr (OdometryMsg od) \<and>
              Node_position self W = Inr (position (pose (odom_pose od))) \<and>
              Node_orientation self W = Inr (orientation (pose (odom_pose od))) \<and>
              Node_linear_vel self W = Inr (linear (twist (odom_twist od))) \<and>
              Node_angular_vel self W = Inr (angular (twist (odom_twist od))))"
  proof
    assume ne: "received ''/odom'' T_Odometry ms \<noteq> []"
    from received_type [OF ne] obtain od where
      od: "last (received ''/odom'' T_Odometry ms) = OdometryMsg od"
      by (cases "last (received ''/odom'' T_Odometry ms)") simp_all
    from ne od have slot: "attrs (nodes W self) ''_odom'' = Some (OdometryMsg od)"
      by (simp add: slots)
    show "\<exists>od. last (received ''/odom'' T_Odometry ms) = OdometryMsg od \<and>
              Node_odom self W = Inr (OdometryMsg od) \<and>
              Node_position self W = Inr (position (pose (odom_pose od))) \<and>
              Node_orientation self W = Inr (orientation (pose (odom_pose od))) \<and>
              Node_linear_vel self W = Inr (linear (twist (odom_twist od))) \<and>
              Node_angular_vel self W = Inr (angular (twist (odom_twist od)))"
      by (intro exI [of _ od] conjI od odom_readings [OF slot])
  qed
  have las: "received ''/projected_stable_scan'' T_PointCloud2 ms \<noteq> [] \<longrightarrow>
        (\<exists>c. last (received ''/projected_stable_scan'' T_PointCloud2 ms) = PointCloud2Msg c \<and>
             Node_laser_point_cloud self W = Inr (PointCloud2Msg c) \<and>
             Node_laser_points dec self W = dec (PointCloud2Msg c))"
  proof
    assume ne: "received ''/projected_stable_scan'' T_PointCloud2 ms \<noteq> []"
    from received_type [OF ne] obtain c where
      c: "last (received ''/projected_stable_scan'' T_PointCloud2 ms) = PointCloud2Msg c"
      by (cases "last (received ''/projected_stable_scan'' T_PointCloud2 ms)") simp_all
    from ne c have slot: "attrs (nodes W self) ''_laser_point_cloud'' = Some (PointCloud2Msg c)"
      by (simp add: slots)
    show "\<exists>c. last (received ''/projected_stable_scan'' T_PointCloud2 ms) = PointCloud2Msg c \<and>
             Node_laser_point_cloud self W = Inr (PointCloud2Msg c) \<and>
             Node_laser_points dec self W = dec (PointCloud2Msg c)"
      by (intro exI [of _ c] conjI c laser_readings [OF slot])
  qed
  show ?thesis
    by (intro conjI odom_waits_iff derived_wait_iff laser_point_cloud_waits_iff
        laser_points_waits_iff [OF assms(3)] unset odo las)
qed

theorem sensor_properties_wait_iff_unset_witness:
  "cache_private Follow_update \<and> fresh 0 boot \<and>
   (\<forall>m. byte_count m \<noteq> Inl WaitingForData) \<and>
   Node_odom 0 started = Inl WaitingForData \<and>
   Node_position 0 started = Inl WaitingForData \<and>
   Node_laser_points byte_count 0 started = Inl WaitingForData \<and>
   Node_odom 0 (spin Follow_update [(''/odom'', OdometryMsg odomA)] started) =
     Inr (OdometryMsg odomA) \<and>
   Node_linear_vel 0 (spin Follow_update [(''/odom'', OdometryMsg odomA)] started) =
     Inr (Vector3 (Finite 3) (Finite 0) (Finite 0)) \<and>
   Node_laser_points byte_count 0 (spin Follow_update [(''/odom'', OdometryMsg odomA)] started) =
     Inl WaitingForData"
proof -
  define W where "W = spin Follow_update [(''/odom'', OdometryMsg odomA)] started"
  have run: "W = spin Follow_update [(''/odom'', OdometryMsg odomA)] (Node_new 0 0 ''follow'' boot)"
    by (simp add: W_def started_def)
  note t = sensor_properties_wait_iff_unset [OF cache_private_Follow_update fresh_boot
      byte_count_not_waiting run, of started]
  have got: "received ''/odom'' T_Odometry [(''/odom'', OdometryMsg odomA)] = [OdometryMsg odomA]"
    "received ''/projected_stable_scan'' T_PointCloud2 [(''/odom'', OdometryMsg odomA)] = []"
    by (simp_all add: received_def)
  from t have before: "Node_odom 0 started = Inl WaitingForData"
    "Node_position 0 started = Inl WaitingForData"
    "Node_laser_points byte_count 0 started = Inl WaitingForData"
    by (simp_all add: started_simps)
  from t got obtain od where od: "OdometryMsg odomA = OdometryMsg od"
    "Node_odom 0 W = Inr (OdometryMsg od)"
    "Node_linear_vel 0 W = Inr (linear (twist (odom_twist od)))"
    by auto
  from od(1) have same: "od = odomA"
    by simp
  have after: "Node_odom 0 W = Inr (OdometryMsg odomA)"
    "Node_linear_vel 0 W = Inr (Vector3 (Finite 3) (Finite 0) (Finite 0))"
    using od(2,3) unfolding same by (simp_all add: odomA_def)
  from sensor_properties_wait_iff_unset [OF cache_private_Follow_update fresh_boot
      byte_count_not_waiting run, of W] got
  have cloud: "Node_laser_points byte_count 0 W = Inl WaitingForData"
    by simp
  show ?thesis
    using cache_private_Follow_update fresh_boot byte_count_not_waiting before after cloud
    unfolding W_def by (intro conjI)
qed

end
